theory Spec2Isabelle
  imports Main
begin

section \<open>JavaScript values\<close>

text \<open>
  The provider is TypeScript: a parameter declared \<^verbatim>\<open>string\<close> may still be
  \<^verbatim>\<open>undefined\<close> at run time, and the code tests such parameters with \<^verbatim>\<open>!x\<close>
  and \<^verbatim>\<open>if (x)\<close>. A string-typed value is therefore a \<open>string option\<close>, \<open>None\<close>
  being \<^verbatim>\<open>undefined\<close>.
\<close>

type_synonym jsstring = "string option"

text \<open>JavaScript truthiness of a string-typed value: \<^verbatim>\<open>undefined\<close> and \<^verbatim>\<open>""\<close> are falsy.\<close>

fun truthy :: "jsstring \<Rightarrow> bool" where
  "truthy None = False"
| "truthy (Some s) = (s \<noteq> [])"

text \<open>What a template literal \<^verbatim>\<open>`${x}`\<close> renders for a string-typed value.\<close>

fun template :: "jsstring \<Rightarrow> string" where
  "template None = ''undefined''"
| "template (Some s) = s"

datatype jsvalue = Undefined | Str string | Num int

fun jsvalue_of :: "jsstring \<Rightarrow> jsvalue" where
  "jsvalue_of None = Undefined"
| "jsvalue_of (Some s) = Str s"

text \<open>The reading of the clock by \<^verbatim>\<open>new Date()\<close>, in milliseconds since the epoch.\<close>

type_synonym date = nat

section \<open>Errors\<close>

text \<open>
  Every \<^verbatim>\<open>throw\<close> is a value: \<open>INVALID_ARGUMENT message name value\<close> is the error
  of \<^verbatim>\<open>assertArgument\<close>, \<open>Error message\<close> a plain \<^verbatim>\<open>new Error(message)\<close>,
  \<open>TypeError\<close> the run-time error of destructuring \<^verbatim>\<open>undefined\<close>, and \<open>Thrown\<close>
  whatever an external library throws.
\<close>

datatype error =
    INVALID_ARGUMENT string string jsvalue
  | Error string
  | TypeError string
  | Thrown string

text \<open>Sequencing: the rest of a block runs only when the statement before it did not throw.\<close>

fun then_do :: "error + 'a \<Rightarrow> ('a \<Rightarrow> error + 'b) \<Rightarrow> error + 'b" where
  "then_do (Inl e) f = Inl e"
| "then_do (Inr x) f = f x"

text \<open>
  Modelled from the spec: \<^verbatim>\<open>assertArgument\<close> of \<^verbatim>\<open>../utils/index.js\<close> is not
  among the sources. The spec describes it as "an argument-validation failure primitive
  that halts construction with a labeled field name and value".
\<close>

definition assertArgument :: "bool \<Rightarrow> string \<Rightarrow> string \<Rightarrow> jsvalue \<Rightarrow> error + unit" where
  "assertArgument check message argument val =
     (if check then Inr () else Inl (INVALID_ARGUMENT message argument val))"

section \<open>Data\<close>

record Network =
  name :: string
  chainId :: int

text \<open>\<^verbatim>\<open>Networkish\<close>: a network name, a chain id, or a network object.\<close>

datatype Networkish = OfName string | OfChainId int | OfNetwork Network

text \<open>\<^verbatim>\<open>aws.Credentials\<close>, opaque to the provider.\<close>

record Credentials =
  accessKeyId :: string
  secretAccessKey :: string
  sessionToken :: "string option"

text \<open>The parts of a parsed \<^verbatim>\<open>URL\<close> that the signing hook reads.\<close>

record URL =
  protocol :: string
  hostname :: string
  host :: string
  pathname :: string

text \<open>
  \<^verbatim>\<open>http.HttpRequest\<close>, built from the hook's \<^verbatim>\<open>requestOptions\<close>. Its headers are
  an object: a list of entries in insertion order, as \<^verbatim>\<open>Object.entries\<close> lists them.
\<close>

record HttpRequest =
  protocol :: string
  hostname :: string
  "method" :: string
  headers :: "(string \<times> string) list"
  path :: string
  body :: "string option"

text \<open>
  The arrow function that \<^verbatim>\<open>getFetchRequest\<close> assigns to \<^verbatim>\<open>request.preflightFunc\<close>,
  as a closure: it captures \<^verbatim>\<open>credentials\<close> and \<^verbatim>\<open>nodeRegion\<close>.
\<close>

datatype preflight = AwsSigV4 Credentials jsstring

text \<open>
  Modelled from the spec: \<^verbatim>\<open>FetchRequest\<close> of \<^verbatim>\<open>../utils/index.js\<close> is not among
  the sources. The spec describes it as "a request-template abstraction supporting URL,
  method, headers (settable), body, and a pre-dispatch hook extension point". The headers
  are a mapping from names to values; the body is a byte string, \<open>None\<close> when the request
  has none.
\<close>

record FetchRequest =
  url :: string
  "method" :: string
  headers :: "string \<rightharpoonup> string"
  body :: "string option"
  preflightFunc :: "preflight option"

text \<open>The read-only \<^verbatim>\<open>aws\<close> attribute of a provider.\<close>

record AwsMeta =
  nodeRegion :: jsstring
  nodeId :: jsstring
  nodeHttpEndpoint :: string
  credentials :: Credentials

text \<open>
  An \<^verbatim>\<open>AwsProvider\<close>: the \<^verbatim>\<open>aws\<close> attribute, and what the constructor hands to
  \<^verbatim>\<open>super(request, network, { staticNetwork: network })\<close>.

  Modelled from the spec: the constructor of \<^verbatim>\<open>JsonRpcProvider\<close> is not among the
  sources. The spec describes the call as "Initialize the underlying JSON-RPC transport
  with the signed template and the normalized network, pinning the network as static".
\<close>

record AwsProvider =
  request :: FetchRequest
  network :: Network
  staticNetwork :: Network
  aws :: AwsMeta

text \<open>\<^verbatim>\<open>AbstractProvider\<close>: an \<^verbatim>\<open>AwsProvider\<close>, or a provider \<open>'p\<close> of the base class.\<close>

datatype 'p AbstractProvider = Aws AwsProvider | Base 'p

section \<open>Collaborators outside the sources\<close>

text \<open>
  What the provider calls and the sources do not hold is a parameter of the model:
  \<^item> \<open>Network_from\<close>: \<^verbatim>\<open>Network.from\<close> of \<^verbatim>\<open>./network.js\<close>;
  \<^item> \<open>Config_credentials\<close>: the \<^verbatim>\<open>credentials\<close> of \<^verbatim>\<open>new aws.Config()\<close>, that is
    what the AWS SDK finds in the environment (\<open>None\<close> when it finds nothing);
  \<^item> \<open>URL_new\<close>: the platform's \<^verbatim>\<open>new URL(string)\<close>, which throws on a malformed URL;
  \<^item> \<open>TextDecoder_decode\<close>: \<^verbatim>\<open>new TextDecoder().decode(bytes)\<close>;
  \<^item> \<open>SignatureV4_sign\<close>: \<^verbatim>\<open>new sigv4.SignatureV4({credentials, region, service,
    sha256}).sign(request, {signingDate})\<close> with \<^verbatim>\<open>sha256\<close> fixed to
    \<^verbatim>\<open>crypto.Sha256\<close>, applied to the \<^verbatim>\<open>http.HttpRequest\<close> built from the options;
  \<^item> \<open>super_getProvider\<close>: \<^verbatim>\<open>_getProvider\<close> of the base class.
\<close>

record 'p platform =
  Network_from :: "Networkish \<Rightarrow> error + Network"
  Config_credentials :: "Credentials option"
  URL_new :: "string \<Rightarrow> error + URL"
  TextDecoder_decode :: "string \<Rightarrow> string"
  SignatureV4_sign ::
    "Credentials \<Rightarrow> jsstring \<Rightarrow> string \<Rightarrow> HttpRequest \<Rightarrow> date \<Rightarrow> error + HttpRequest"
  super_getProvider :: "AwsProvider \<Rightarrow> int \<Rightarrow> error + 'p"

section \<open>The community node directory\<close>

text \<open>Statements run in order; the first one that throws ends the run.\<close>

fun run_statements :: "(error + unit) list \<Rightarrow> error + unit" where
  "run_statements [] = Inr ()"
| "run_statements (s # ss) = then_do s (\<lambda>_. run_statements ss)"

text \<open>
  \<^verbatim>\<open>getCommunityAmbNodeProps\<close>: a \<^verbatim>\<open>switch\<close> on \<^verbatim>\<open>network.name\<close> whose arms have no
  \<^verbatim>\<open>break\<close>: control enters at the matching label (at \<^verbatim>\<open>default\<close> when none
  matches) and runs every statement from there on. The function has no \<^verbatim>\<open>return\<close>:
  falling off its end yields \<^verbatim>\<open>undefined\<close>, here \<open>Inr None\<close>; a returned object
  \<^verbatim>\<open>{nodeId, nodeRegion}\<close> would be \<open>Inr (Some (nodeId, nodeRegion))\<close>.
\<close>

definition getCommunityAmbNodeProps :: "Network \<Rightarrow> error + (jsstring \<times> jsstring) option"
  where
  "getCommunityAmbNodeProps network =
     (let no_node = assertArgument False
            ''No Amazon Managed Blockchain community node found for network''
            ''network.name'' (Str (name network));
          arms = [(''mainnet'', no_node), (''goerli'', no_node),
                  (''matic'', no_node), (''matic-mumbai'', no_node)];
          default = assertArgument False ''Unsupported network''
            ''network.name'' (Str (name network));
          entered = dropWhile (\<lambda>(label, _). label \<noteq> name network) arms
      in then_do (run_statements (map snd entered @ [default])) (\<lambda>_. Inr None))"
  for network

section \<open>The endpoint URL\<close>

definition getAmbNodeUrl :: "jsstring \<Rightarrow> jsstring \<Rightarrow> jsstring \<Rightarrow> string" where
  "getAmbNodeUrl nodeId nodeRegion billingToken =
     (let url = ''https://'' @ template nodeId @ ''.ethereum.managedblockchain.''
                  @ template nodeRegion @ ''.amazonaws.com''
      in if truthy billingToken then url @ ''?billingToken='' @ template billingToken
         else url)"
  for nodeId nodeRegion

section \<open>Credentials from the environment\<close>

definition getDefaultAwsCredentials :: "'p platform \<Rightarrow> error + Credentials" where
  "getDefaultAwsCredentials P =
     (case Config_credentials P of
        Some found \<Rightarrow> Inr found
      | None \<Rightarrow> Inl (Error (''AWS Credentials not found by the AWS SDK. ''
          @ ''To learn how to set AWS credentials for your environment, please visit ''
          @ ''https://docs.aws.amazon.com/sdk-for-javascript/v2/developer-guide/''
          @ ''setting-credentials-node.html'')))"

section \<open>The signed request\<close>

text \<open>ASCII lower case, as header names are ASCII.\<close>

definition lower :: "char \<Rightarrow> char" where
  "lower c =
     (case map_of (zip ''ABCDEFGHIJKLMNOPQRSTUVWXYZ'' ''abcdefghijklmnopqrstuvwxyz'') c of
        Some l \<Rightarrow> l
      | None \<Rightarrow> c)"

text \<open>
  Modelled from the spec: \<^verbatim>\<open>new FetchRequest(url)\<close> and \<^verbatim>\<open>setHeader\<close> are not among
  the sources. A new template has the URL it was given, no header, no body and no hook.
  The spec has the headers of a request as a "mapping, keys case-insensitive" and the
  signed headers as "merged into the outbound request's header mapping, overwriting any
  colliding keys": \<open>setHeader\<close> stores a header under its name in lower case and
  overwrites the header of that name, leaving every other header as it is.
\<close>

definition new_FetchRequest :: "string \<Rightarrow> FetchRequest" where
  "new_FetchRequest u =
     \<lparr>url = u, FetchRequest.method = ''GET'', FetchRequest.headers = Map.empty,
      FetchRequest.body = None, preflightFunc = None\<rparr>"

definition setHeader :: "FetchRequest \<Rightarrow> string \<Rightarrow> string \<Rightarrow> FetchRequest" where
  "setHeader r key val =
     r\<lparr>FetchRequest.headers := (FetchRequest.headers r)(map lower key \<mapsto> val)\<rparr>"

text \<open>
  The hook, lines 151 to 165: the request handed to the signer. It is built from the URL,
  the method and the body of the outbound request, and a \<^verbatim>\<open>host\<close> header. A body
  is an object, hence truthy even when it is empty: every body that is there is decoded.
  \<^verbatim>\<open>new http.HttpRequest(requestOptions)\<close> is the record of the options.
\<close>

definition awsRequest :: "'p platform \<Rightarrow> FetchRequest \<Rightarrow> error + HttpRequest" where
  "awsRequest P ethersRequest =
     then_do (URL_new P (url ethersRequest)) (\<lambda>urlParser.
       Inr \<lparr>HttpRequest.protocol = URL.protocol urlParser,
            HttpRequest.hostname = URL.hostname urlParser,
            HttpRequest.method = FetchRequest.method ethersRequest,
            HttpRequest.headers = [(''host'', host urlParser)],
            path = pathname urlParser,
            HttpRequest.body =
              (case FetchRequest.body ethersRequest of
                 Some bytes \<Rightarrow> Some (TextDecoder_decode P bytes)
               | None \<Rightarrow> None)\<rparr>)"

text \<open>
  The hook, lines 169 to 182: the headers of the signed request. \<open>now\<close> is the value of
  \<^verbatim>\<open>new Date()\<close> when the hook runs.
\<close>

definition signedAwsHeaders ::
  "'p platform \<Rightarrow> Credentials \<Rightarrow> jsstring \<Rightarrow> date \<Rightarrow> FetchRequest
     \<Rightarrow> error + (string \<times> string) list" where
  "signedAwsHeaders P credentials nodeRegion now ethersRequest =
     then_do (awsRequest P ethersRequest) (\<lambda>awsRequest.
     then_do (SignatureV4_sign P credentials nodeRegion ''managedblockchain'' awsRequest now)
       (\<lambda>signedAwsRequest. Inr (HttpRequest.headers signedAwsRequest)))"
  for credentials nodeRegion

text \<open>The hook, lines 184 to 186: the loop over the entries of the signed headers.\<close>

fun setHeaders :: "(string \<times> string) list \<Rightarrow> FetchRequest \<Rightarrow> FetchRequest" where
  "setHeaders [] ethersRequest = ethersRequest"
| "setHeaders ((headerKey, headerValue) # entries) ethersRequest =
     setHeaders entries (setHeader ethersRequest headerKey headerValue)"

text \<open>The hook applied to an outbound request at clock reading \<open>now\<close>.\<close>

fun apply_preflight ::
  "'p platform \<Rightarrow> preflight \<Rightarrow> date \<Rightarrow> FetchRequest \<Rightarrow> error + FetchRequest" where
  "apply_preflight P (AwsSigV4 creds region) now ethersRequest =
     then_do (signedAwsHeaders P creds region now ethersRequest) (\<lambda>signedAwsHeaders.
       Inr (setHeaders signedAwsHeaders ethersRequest))"

definition getFetchRequest ::
  "Credentials \<Rightarrow> jsstring \<Rightarrow> jsstring \<Rightarrow> jsstring \<Rightarrow> FetchRequest" where
  "getFetchRequest credentials nodeId nodeRegion billingToken =
     (new_FetchRequest (getAmbNodeUrl nodeId nodeRegion billingToken))
       \<lparr>preflightFunc := Some (AwsSigV4 credentials nodeRegion)\<rparr>"
  for credentials nodeId nodeRegion

section \<open>The provider\<close>

text \<open>
  The constructor. Its parameter is destructured in the source, so the five properties
  are five arguments here; an omitted property is \<open>None\<close>.
\<close>

definition AwsProvider_constructor ::
  "'p platform \<Rightarrow> jsstring \<Rightarrow> jsstring \<Rightarrow> jsstring \<Rightarrow> Networkish option
     \<Rightarrow> Credentials option \<Rightarrow> error + AwsProvider" where
  "AwsProvider_constructor P nodeId nodeRegion billingToken network credentials =
     (let network = (case network of None \<Rightarrow> OfName ''mainnet'' | Some n \<Rightarrow> n) in
      then_do (Network_from P network) (\<lambda>network.
      then_do
        (if \<not> truthy nodeId \<and> truthy nodeRegion then
           then_do (assertArgument False ''nodeId required with nodeRegion''
                      ''nodeId'' (jsvalue_of nodeId))
             (\<lambda>_. Inr (nodeId, nodeRegion))
         else if truthy nodeId \<and> \<not> truthy nodeRegion then
           then_do (assertArgument False ''nodeRegion required with nodeId''
                      ''nodeRegion'' (jsvalue_of nodeRegion))
             (\<lambda>_. Inr (nodeId, nodeRegion))
         else if \<not> truthy nodeId then
           then_do (getCommunityAmbNodeProps network) (\<lambda>props.
             case props of
               Some (foundId, foundRegion) \<Rightarrow> Inr (foundId, foundRegion)
             | None \<Rightarrow> Inl (TypeError ''Cannot destructure undefined''))
         else Inr (nodeId, nodeRegion))
        (\<lambda>(nodeId, nodeRegion).
      then_do
        (case credentials of
           None \<Rightarrow> getDefaultAwsCredentials P
         | Some given \<Rightarrow> Inr given)
        (\<lambda>credentials.
      let request = getFetchRequest credentials nodeId nodeRegion billingToken in
      Inr \<lparr>request = request, network = network, staticNetwork = network,
           aws = \<lparr>nodeRegion = nodeRegion, nodeId = nodeId,
                   nodeHttpEndpoint = url request, credentials = credentials\<rparr>\<rparr>))))"
  for nodeId nodeRegion network credentials

text \<open>
  \<^verbatim>\<open>_getProvider\<close>. The console is the list of what \<^verbatim>\<open>console.error\<close> has printed;
  the method returns its result and the console after it.
\<close>

definition AwsProvider_getProvider ::
  "'p platform \<Rightarrow> AwsProvider \<Rightarrow> int \<Rightarrow> error list
     \<Rightarrow> (error + 'p AbstractProvider) \<times> error list" where
  "AwsProvider_getProvider P this chainId console =
     (case AwsProvider_constructor P (nodeId (aws this)) (nodeRegion (aws this)) None
             (Some (OfChainId chainId)) (Some (credentials (aws this))) of
        Inr provider \<Rightarrow> (Inr (Aws provider), console)
      | Inl error \<Rightarrow>
          (then_do (super_getProvider P this chainId) (\<lambda>provider. Inr (Base provider)),
           console @ [error]))"
  for chainId

section \<open>A sample platform\<close>

text \<open>
  Stand-ins for the collaborators, for the closed instances of the theorems below: a
  registry that knows mainnet and matic and, as the spec has it, "fails with an argument
  error if the identifier is unrecognized", a URL parser for \<^verbatim>\<open>https://host\<close>, and a
  signer that adds a date header and an authorization header.
\<close>

definition mainnet :: Network where
  "mainnet = \<lparr>name = ''mainnet'', chainId = 1\<rparr>"

definition matic :: Network where
  "matic = \<lparr>name = ''matic'', chainId = 137\<rparr>"

definition sample_Network_from :: "Networkish \<Rightarrow> error + Network" where
  "sample_Network_from n =
     (case n of
        OfName s \<Rightarrow>
          if s = ''mainnet'' then Inr mainnet
          else if s = ''matic'' then Inr matic
          else Inl (INVALID_ARGUMENT ''unknown network'' ''network'' (Str s))
      | OfChainId c \<Rightarrow>
          if c = 1 then Inr mainnet
          else if c = 137 then Inr matic
          else Inl (INVALID_ARGUMENT ''unknown network'' ''network'' (Num c))
      | OfNetwork net \<Rightarrow> Inr net)"

definition sample_URL_new :: "string \<Rightarrow> error + URL" where
  "sample_URL_new u =
     (if take 8 u = ''https://'' then
        let h = takeWhile (\<lambda>c. c \<noteq> CHR ''/'' \<and> c \<noteq> CHR ''?'') (drop 8 u)
        in Inr \<lparr>URL.protocol = ''https:'', URL.hostname = h, host = h, pathname = ''/''\<rparr>
      else Inl (TypeError ''Invalid URL''))"

text \<open>The date header counts the seconds of the clock reading in strokes.\<close>

definition sample_sign ::
  "Credentials \<Rightarrow> jsstring \<Rightarrow> string \<Rightarrow> HttpRequest \<Rightarrow> date \<Rightarrow> error + HttpRequest" where
  "sample_sign creds region service req now =
     (let stamp = replicate (now div 1000) (CHR ''|'')
      in Inr (req\<lparr>HttpRequest.headers := HttpRequest.headers req @
           [(''X-Amz-Date'', stamp),
            (''Authorization'', accessKeyId creds @ ''/'' @ template region @ ''/''
               @ service @ ''/'' @ HttpRequest.hostname req @ ''/'' @ stamp)]\<rparr>))"

definition sample_platform :: "unit platform" where
  "sample_platform =
     \<lparr>Network_from = sample_Network_from,
      Config_credentials = None,
      URL_new = sample_URL_new,
      TextDecoder_decode = (\<lambda>bytes. bytes),
      SignatureV4_sign = sample_sign,
      super_getProvider = (\<lambda>this c. Inr ())\<rparr>"

definition sample_credentials :: Credentials where
  "sample_credentials =
     \<lparr>accessKeyId = ''AKID'', secretAccessKey = ''secret'', sessionToken = None\<rparr>"

section \<open>Auxiliary facts\<close>

lemmas sample_defs = sample_platform_def sample_sign_def sample_URL_new_def
  sample_credentials_def sample_Network_from_def mainnet_def matic_def

lemma setHeaders_fields:
  "url (setHeaders es r) = url r \<and> FetchRequest.method (setHeaders es r) = FetchRequest.method r
   \<and> FetchRequest.body (setHeaders es r) = FetchRequest.body r
   \<and> preflightFunc (setHeaders es r) = preflightFunc r"
  by (induction es r rule: setHeaders.induct) (simp_all add: setHeader_def)

lemma setHeaders_headers:
  "FetchRequest.headers (setHeaders es r) k =
     (case map_of (rev (map (\<lambda>(key, val). (map lower key, val)) es)) k of
        Some v \<Rightarrow> Some v
      | None \<Rightarrow> FetchRequest.headers r k)"
  by (induction es r rule: setHeaders.induct)
     (auto simp add: setHeader_def map_add_def split: option.splits)

lemma map_of_lowered_None:
  "map_of (rev (map (\<lambda>(key, val). (map lower key, val)) es)) k = None
     \<longleftrightarrow> k \<notin> (\<lambda>(key, val). map lower key) ` set es"
  by (force simp add: map_of_eq_None_iff image_iff)

lemma awsRequest_cong:
  assumes "url r2 = url r1" "FetchRequest.method r2 = FetchRequest.method r1"
    "FetchRequest.body r2 = FetchRequest.body r1"
  shows "awsRequest P r2 = awsRequest P r1"
  using assms by (simp add: awsRequest_def)

lemma signedAwsHeaders_cong:
  assumes "url r2 = url r1" "FetchRequest.method r2 = FetchRequest.method r1"
    "FetchRequest.body r2 = FetchRequest.body r1"
  shows "signedAwsHeaders P c region now r2 = signedAwsHeaders P c region now r1"
  using awsRequest_cong [OF assms, of P] by (simp add: signedAwsHeaders_def)

lemma apply_preflight_Inr:
  assumes "apply_preflight P (AwsSigV4 c region) now r = Inr r'"
  obtains hs where "signedAwsHeaders P c region now r = Inr hs" "r' = setHeaders hs r"
  using assms by (cases "signedAwsHeaders P c region now r") auto

lemma getCommunityAmbNodeProps_Inl:
  fixes network :: Network
  shows "\<exists>e. getCommunityAmbNodeProps network = Inl e"
  by (auto simp add: getCommunityAmbNodeProps_def assertArgument_def Let_def)

lemma constructor_Inr_coordinates:
  fixes nodeId nodeRegion billingToken :: jsstring
    and network :: "Networkish option" and credentials :: "Credentials option"
  assumes "AwsProvider_constructor P nodeId nodeRegion billingToken network credentials
      = Inr provider"
  shows "truthy (AwsMeta.nodeId (aws provider)) \<and> truthy (AwsMeta.nodeRegion (aws provider))"
proof -
  let ?requested = "case network of None \<Rightarrow> OfName ''mainnet'' | Some n \<Rightarrow> n"
  obtain net where net: "Network_from P ?requested = Inr net"
    using assms by (cases "Network_from P ?requested")
      (simp_all add: AwsProvider_constructor_def Let_def)
  obtain e where e: "getCommunityAmbNodeProps net = Inl e"
    using getCommunityAmbNodeProps_Inl [of net] by blast
  have "truthy nodeId \<and> truthy nodeRegion"
    using assms net e
    by (cases "truthy nodeId"; cases "truthy nodeRegion")
      (simp_all add: AwsProvider_constructor_def Let_def assertArgument_def)
  then show ?thesis
    using assms net
    by (cases "case credentials of None \<Rightarrow> getDefaultAwsCredentials P | Some given \<Rightarrow> Inr given")
      (auto simp add: AwsProvider_constructor_def Let_def)
qed

section \<open>The community node directory always fails\<close>

text \<open>
  C1. For every network whose name is one of mainnet, goerli, matic and matic-mumbai, the
  directory lookup fails with the argument error "No Amazon Managed Blockchain community
  node found for network", which carries the name of that network as the offending value of
  \<^verbatim>\<open>network.name\<close>; for every other name it fails with the distinct argument error
  "Unsupported network"; it returns a node location for no input.
\<close>

theorem getCommunityAmbNodeProps_always_fails:
  fixes network :: Network
  shows "(name network \<in> {''mainnet'', ''goerli'', ''matic'', ''matic-mumbai''} \<longrightarrow>
      getCommunityAmbNodeProps network
        = Inl (INVALID_ARGUMENT
            ''No Amazon Managed Blockchain community node found for network''
            ''network.name'' (Str (name network))))
   \<and> (name network \<notin> {''mainnet'', ''goerli'', ''matic'', ''matic-mumbai''} \<longrightarrow>
      getCommunityAmbNodeProps network
        = Inl (INVALID_ARGUMENT ''Unsupported network''
            ''network.name'' (Str (name network))))
   \<and> (\<forall>props. getCommunityAmbNodeProps network \<noteq> Inr props)"
  by (auto simp add: getCommunityAmbNodeProps_def assertArgument_def Let_def)

theorem getCommunityAmbNodeProps_always_fails_witness:
  "getCommunityAmbNodeProps \<lparr>name = ''matic-mumbai'', chainId = 80001\<rparr>
     = Inl (INVALID_ARGUMENT
         ''No Amazon Managed Blockchain community node found for network''
         ''network.name'' (Str ''matic-mumbai''))
   \<and> getCommunityAmbNodeProps \<lparr>name = ''sepolia'', chainId = 11155111\<rparr>
     = Inl (INVALID_ARGUMENT ''Unsupported network'' ''network.name'' (Str ''sepolia''))"
  using getCommunityAmbNodeProps_always_fails [of "\<lparr>name = ''matic-mumbai'', chainId = 80001\<rparr>"]
    getCommunityAmbNodeProps_always_fails [of "\<lparr>name = ''sepolia'', chainId = 11155111\<rparr>"]
  by simp

section \<open>The endpoint builder\<close>

text \<open>
  C4, as stated, fails for a billing token that is supplied and empty: the builder appends
  nothing, not even \<^verbatim>\<open>?billingToken=\<close>.
\<close>

theorem getAmbNodeUrl_supplied_empty_token_counterexample:
  "getAmbNodeUrl (Some ''abc'') (Some ''us-east-1'') (Some '''')
     \<noteq> ''https://abc.ethereum.managedblockchain.us-east-1.amazonaws.com''
         @ ''?billingToken='' @ ''''"
  by (simp add: getAmbNodeUrl_def)

text \<open>
  C4, amended. For every node id and region, the endpoint builder returns exactly
  \<^verbatim>\<open>https://{nodeId}.ethereum.managedblockchain.{nodeRegion}.amazonaws.com\<close>; when a
  non-empty billing token is supplied, it returns that URL followed by
  \<^verbatim>\<open>?billingToken=\<close> and the token verbatim, once, with no other change.
\<close>

theorem getAmbNodeUrl_template:
  fixes nodeId nodeRegion billingToken :: string
  shows "getAmbNodeUrl (Some nodeId) (Some nodeRegion) None
       = ''https://'' @ nodeId @ ''.ethereum.managedblockchain.'' @ nodeRegion
           @ ''.amazonaws.com''
     \<and> (billingToken \<noteq> '''' \<longrightarrow>
          getAmbNodeUrl (Some nodeId) (Some nodeRegion) (Some billingToken)
        = ''https://'' @ nodeId @ ''.ethereum.managedblockchain.'' @ nodeRegion
            @ ''.amazonaws.com'' @ ''?billingToken='' @ billingToken)"
  by (simp add: getAmbNodeUrl_def)

theorem getAmbNodeUrl_template_witness:
  "getAmbNodeUrl (Some ''abc'') (Some ''us-east-1'') None
       = ''https://abc.ethereum.managedblockchain.us-east-1.amazonaws.com''
     \<and> ''tok'' \<noteq> ''''
     \<and> getAmbNodeUrl (Some ''abc'') (Some ''us-east-1'') (Some ''tok'')
       = ''https://abc.ethereum.managedblockchain.us-east-1.amazonaws.com?billingToken=tok''"
  using getAmbNodeUrl_template [of "''abc''" "''us-east-1''" "''tok''"]
  by simp

text \<open>
  C9. The endpoint builder tests the billing token for truthiness, not presence: for every
  node id and region, the empty token gives the same URL as no token at all, without any
  \<^verbatim>\<open>?billingToken=\<close> suffix, and the query string is appended only for a non-empty
  token.
\<close>

theorem getAmbNodeUrl_empty_token:
  fixes nodeId nodeRegion :: string
  shows "getAmbNodeUrl (Some nodeId) (Some nodeRegion) (Some '''')
     = getAmbNodeUrl (Some nodeId) (Some nodeRegion) None
   \<and> getAmbNodeUrl (Some nodeId) (Some nodeRegion) (Some '''')
     = ''https://'' @ nodeId @ ''.ethereum.managedblockchain.'' @ nodeRegion @ ''.amazonaws.com''
   \<and> (getAmbNodeUrl (Some nodeId) (Some nodeRegion) billingToken
        \<noteq> getAmbNodeUrl (Some nodeId) (Some nodeRegion) None
      \<longrightarrow> (\<exists>t. billingToken = Some t \<and> t \<noteq> ''''))"
  by (cases billingToken) (auto simp add: getAmbNodeUrl_def)

theorem getAmbNodeUrl_empty_token_witness:
  "getAmbNodeUrl (Some ''abc'') (Some ''us-east-1'') (Some '''')
     = ''https://abc.ethereum.managedblockchain.us-east-1.amazonaws.com''
   \<and> getAmbNodeUrl (Some ''abc'') (Some ''us-east-1'') (Some ''tok'')
     \<noteq> getAmbNodeUrl (Some ''abc'') (Some ''us-east-1'') None
   \<and> (\<exists>t. Some ''tok'' = Some t \<and> t \<noteq> '''')"
  using getAmbNodeUrl_empty_token [of "''abc''" "''us-east-1''" "Some ''tok''"]
  by (simp add: getAmbNodeUrl_def)

section \<open>The signing hook\<close>

text \<open>
  C5. The hook that \<^verbatim>\<open>getFetchRequest\<close> installs changes only the headers that the
  signing step returned. Header names are compared as the request stores them, in lower
  case. After the hook has run, every header whose name is not among the names of the
  signed headers has its prior value, every header whose name is among them has the
  signer's value (that of the last entry of that name), and the URL, the method and the
  body are unchanged. When the hook runs a second time on the result, the signer is handed
  the same request as before, every header that is in neither signed set still has its
  original value, and the signed headers have the values of the second signature.
\<close>

theorem preflight_changes_signed_headers_only:
  fixes credentials :: Credentials and nodeId nodeRegion billingToken :: jsstring
  assumes installed:
      "preflightFunc (getFetchRequest credentials nodeId nodeRegion billingToken) = Some hook"
    and first: "apply_preflight P hook now ethersRequest = Inr once"
    and second: "apply_preflight P hook later once = Inr twice"
  shows "\<exists>signed1 signed2.
      signedAwsHeaders P credentials nodeRegion now ethersRequest = Inr signed1
    \<and> signedAwsHeaders P credentials nodeRegion later ethersRequest = Inr signed2
    \<and> (\<forall>k. k \<notin> (\<lambda>(key, val). map lower key) ` set signed1 \<longrightarrow>
          FetchRequest.headers once k = FetchRequest.headers ethersRequest k)
    \<and> (\<forall>k \<in> (\<lambda>(key, val). map lower key) ` set signed1.
          FetchRequest.headers once k
            = map_of (rev (map (\<lambda>(key, val). (map lower key, val)) signed1)) k)
    \<and> (\<forall>k. k \<notin> (\<lambda>(key, val). map lower key) ` set signed1
             \<and> k \<notin> (\<lambda>(key, val). map lower key) ` set signed2 \<longrightarrow>
          FetchRequest.headers twice k = FetchRequest.headers ethersRequest k)
    \<and> (\<forall>k \<in> (\<lambda>(key, val). map lower key) ` set signed2.
          FetchRequest.headers twice k
            = map_of (rev (map (\<lambda>(key, val). (map lower key, val)) signed2)) k)
    \<and> url once = url ethersRequest \<and> url twice = url ethersRequest
    \<and> FetchRequest.method once = FetchRequest.method ethersRequest
    \<and> FetchRequest.method twice = FetchRequest.method ethersRequest
    \<and> FetchRequest.body once = FetchRequest.body ethersRequest
    \<and> FetchRequest.body twice = FetchRequest.body ethersRequest"
proof -
  have hook: "hook = AwsSigV4 credentials nodeRegion"
    using installed by (simp add: getFetchRequest_def)
  obtain signed1 where s1: "signedAwsHeaders P credentials nodeRegion now ethersRequest = Inr signed1"
    and once: "once = setHeaders signed1 ethersRequest"
    using first unfolding hook by (rule apply_preflight_Inr)
  obtain signed2 where s2': "signedAwsHeaders P credentials nodeRegion later once = Inr signed2"
    and twice: "twice = setHeaders signed2 once"
    using second unfolding hook by (rule apply_preflight_Inr)
  have same: "url once = url ethersRequest"
    "FetchRequest.method once = FetchRequest.method ethersRequest"
    "FetchRequest.body once = FetchRequest.body ethersRequest"
    using setHeaders_fields [of signed1 ethersRequest] by (simp_all add: once)
  have s2: "signedAwsHeaders P credentials nodeRegion later ethersRequest = Inr signed2"
    using signedAwsHeaders_cong [OF same, of P credentials nodeRegion later] s2' by simp
  have h1: "FetchRequest.headers once k =
      (case map_of (rev (map (\<lambda>(key, val). (map lower key, val)) signed1)) k of
         Some v \<Rightarrow> Some v | None \<Rightarrow> FetchRequest.headers ethersRequest k)" for k
    by (simp add: once setHeaders_headers)
  have h2: "FetchRequest.headers twice k =
      (case map_of (rev (map (\<lambda>(key, val). (map lower key, val)) signed2)) k of
         Some v \<Rightarrow> Some v | None \<Rightarrow> FetchRequest.headers once k)" for k
    by (simp add: twice setHeaders_headers)
  have out1: "k \<notin> (\<lambda>(key, val). map lower key) ` set signed1 \<Longrightarrow>
      FetchRequest.headers once k = FetchRequest.headers ethersRequest k" for k
    using map_of_lowered_None [of signed1 k] by (simp add: h1)
  have in1: "k \<in> (\<lambda>(key, val). map lower key) ` set signed1 \<Longrightarrow>
      FetchRequest.headers once k
        = map_of (rev (map (\<lambda>(key, val). (map lower key, val)) signed1)) k" for k
    using map_of_lowered_None [of signed1 k] by (auto simp add: h1 split: option.splits)
  have out2: "k \<notin> (\<lambda>(key, val). map lower key) ` set signed2 \<Longrightarrow>
      FetchRequest.headers twice k = FetchRequest.headers once k" for k
    using map_of_lowered_None [of signed2 k] by (simp add: h2)
  have in2: "k \<in> (\<lambda>(key, val). map lower key) ` set signed2 \<Longrightarrow>
      FetchRequest.headers twice k
        = map_of (rev (map (\<lambda>(key, val). (map lower key, val)) signed2)) k" for k
    using map_of_lowered_None [of signed2 k] by (auto simp add: h2 split: option.splits)
  have fields2: "url twice = url ethersRequest"
    "FetchRequest.method twice = FetchRequest.method ethersRequest"
    "FetchRequest.body twice = FetchRequest.body ethersRequest"
    using setHeaders_fields [of signed2 once] same by (simp_all add: twice)
  show ?thesis
    using s1 s2 out1 in1 out2 in2 same fields2 by (intro exI [of _ signed1] exI [of _ signed2]) simp
qed


theorem preflight_changes_signed_headers_only_witness:
  "\<exists>once twice.
     apply_preflight sample_platform (AwsSigV4 sample_credentials (Some ''r1'')) 1000
       ((new_FetchRequest ''https://n1.example.com'')
          \<lparr>FetchRequest.headers := [''content-type'' \<mapsto> ''application/json'',
                                     ''authorization'' \<mapsto> ''Basic old'']\<rparr>) = Inr once
   \<and> apply_preflight sample_platform (AwsSigV4 sample_credentials (Some ''r1'')) 2000 once
       = Inr twice
   \<and> FetchRequest.headers once ''content-type'' = Some ''application/json''
   \<and> FetchRequest.headers twice ''content-type'' = Some ''application/json''
   \<and> FetchRequest.headers once ''authorization''
       = Some ''AKID/r1/managedblockchain/n1.example.com/|''
   \<and> FetchRequest.headers twice ''authorization''
       = Some ''AKID/r1/managedblockchain/n1.example.com/||''"
proof -
  let ?hook = "AwsSigV4 sample_credentials (Some ''r1'')"
  let ?req = "(new_FetchRequest ''https://n1.example.com'')
          \<lparr>FetchRequest.headers := [''content-type'' \<mapsto> ''application/json'',
                                     ''authorization'' \<mapsto> ''Basic old'']\<rparr>"
  let ?hs1 = "[(''host'', ''n1.example.com''), (''X-Amz-Date'', ''|''),
     (''Authorization'', ''AKID/r1/managedblockchain/n1.example.com/|'')]"
  let ?hs2 = "[(''host'', ''n1.example.com''), (''X-Amz-Date'', ''||''),
     (''Authorization'', ''AKID/r1/managedblockchain/n1.example.com/||'')]"
  define once where "once = setHeaders ?hs1 ?req"
  define twice where "twice = setHeaders ?hs2 once"
  have installed: "preflightFunc (getFetchRequest sample_credentials (Some ''n1'') (Some ''r1'') None)
      = Some ?hook"
    by (simp add: getFetchRequest_def)
  have s1: "signedAwsHeaders sample_platform sample_credentials (Some ''r1'') 1000 ?req = Inr ?hs1"
    by (simp add: signedAwsHeaders_def awsRequest_def new_FetchRequest_def sample_defs Let_def)
  have first: "apply_preflight sample_platform ?hook 1000 ?req = Inr once"
    by (simp only: apply_preflight.simps s1 then_do.simps once_def)
  have "url once = ''https://n1.example.com'' \<and> FetchRequest.method once = ''GET''
      \<and> FetchRequest.body once = None"
    using setHeaders_fields [of ?hs1 ?req] by (simp add: once_def new_FetchRequest_def)
  then have s2: "signedAwsHeaders sample_platform sample_credentials (Some ''r1'') 2000 once
      = Inr ?hs2"
    by (simp add: signedAwsHeaders_def awsRequest_def sample_defs Let_def numeral_2_eq_2)
  have second: "apply_preflight sample_platform ?hook 2000 once = Inr twice"
    by (simp only: apply_preflight.simps s2 then_do.simps twice_def)
  have s2': "signedAwsHeaders sample_platform sample_credentials (Some ''r1'') 2000 ?req = Inr ?hs2"
    by (simp add: signedAwsHeaders_def awsRequest_def new_FetchRequest_def sample_defs Let_def
        numeral_2_eq_2)
  have names1: "(\<lambda>(key, val). map lower key) ` set ?hs1
      = {''host'', ''x-amz-date'', ''authorization''}"
    by (simp add: lower_def)
  have names2: "(\<lambda>(key, val). map lower key) ` set ?hs2
      = {''host'', ''x-amz-date'', ''authorization''}"
    by (simp add: lower_def)
  have value1: "map_of (rev (map (\<lambda>(key, val). (map lower key, val)) ?hs1)) ''authorization''
      = Some ''AKID/r1/managedblockchain/n1.example.com/|''"
    by (simp add: lower_def)
  have value2: "map_of (rev (map (\<lambda>(key, val). (map lower key, val)) ?hs2)) ''authorization''
      = Some ''AKID/r1/managedblockchain/n1.example.com/||''"
    by (simp add: lower_def)
  from preflight_changes_signed_headers_only [OF installed first second]
  obtain signed1 signed2 where
    a: "signedAwsHeaders sample_platform sample_credentials (Some ''r1'') 1000 ?req = Inr signed1"
    and b: "signedAwsHeaders sample_platform sample_credentials (Some ''r1'') 2000 ?req = Inr signed2"
    and out1: "\<forall>k. k \<notin> (\<lambda>(key, val). map lower key) ` set signed1 \<longrightarrow>
          FetchRequest.headers once k = FetchRequest.headers ?req k"
    and in1: "\<forall>k \<in> (\<lambda>(key, val). map lower key) ` set signed1.
          FetchRequest.headers once k
            = map_of (rev (map (\<lambda>(key, val). (map lower key, val)) signed1)) k"
    and out2: "\<forall>k. k \<notin> (\<lambda>(key, val). map lower key) ` set signed1
             \<and> k \<notin> (\<lambda>(key, val). map lower key) ` set signed2 \<longrightarrow>
          FetchRequest.headers twice k = FetchRequest.headers ?req k"
    and in2: "\<forall>k \<in> (\<lambda>(key, val). map lower key) ` set signed2.
          FetchRequest.headers twice k
            = map_of (rev (map (\<lambda>(key, val). (map lower key, val)) signed2)) k"
    by (elim exE conjE) (rule that, assumption+)
  have e1: "signed1 = ?hs1" using a unfolding s1 by simp
  have e2: "signed2 = ?hs2" using b unfolding s2' by simp
  have c1: "FetchRequest.headers once ''content-type'' = Some ''application/json''"
    using out1 [rule_format, of "''content-type''"] unfolding e1 names1
    by (simp add: new_FetchRequest_def)
  have c2: "FetchRequest.headers twice ''content-type'' = Some ''application/json''"
    using out2 [rule_format, of "''content-type''"] unfolding e1 e2 names1 names2
    by (simp add: new_FetchRequest_def)
  have a1: "FetchRequest.headers once ''authorization''
      = Some ''AKID/r1/managedblockchain/n1.example.com/|''"
    using in1 [rule_format, of "''authorization''"] unfolding e1 names1 value1 by simp
  have a2: "FetchRequest.headers twice ''authorization''
      = Some ''AKID/r1/managedblockchain/n1.example.com/||''"
    using in2 [rule_format, of "''authorization''"] unfolding e2 names2 value2 by simp
  show ?thesis
    using first second c1 c2 a1 a2 by blast
qed

section \<open>The constructor\<close>

text \<open>
  C2, as stated, fails for a node coordinate that is supplied and empty. With
  \<^verbatim>\<open>nodeId\<close> the empty string and \<^verbatim>\<open>nodeRegion\<close> undefined, and with both the
  empty string, the constructor raises no coordinate error: it goes to the directory
  lookup, whose error it raises.
\<close>

theorem constructor_supplied_empty_coordinate_counterexample:
  "AwsProvider_constructor sample_platform (Some '''') None None None None
     = Inl (INVALID_ARGUMENT
         ''No Amazon Managed Blockchain community node found for network''
         ''network.name'' (Str ''mainnet''))
   \<and> AwsProvider_constructor sample_platform (Some '''') (Some '''') None None None
     = Inl (INVALID_ARGUMENT
         ''No Amazon Managed Blockchain community node found for network''
         ''network.name'' (Str ''mainnet''))"
  by (simp add: AwsProvider_constructor_def getCommunityAmbNodeProps_def assertArgument_def
      Let_def sample_platform_def sample_Network_from_def mainnet_def)

text \<open>
  C2, amended. Once \<^verbatim>\<open>Network.from\<close> has normalised the network (mainnet when none
  is given), the constructor tests the node coordinates for truthiness, \<^verbatim>\<open>!nodeId\<close>
  and \<^verbatim>\<open>!nodeRegion\<close>, before any directory lookup or credential resolution; a
  coordinate that is \<^verbatim>\<open>undefined\<close> or the empty string is falsy. A falsy node id with
  a truthy region raises the argument error for \<^verbatim>\<open>nodeId\<close>, a truthy node id with a
  falsy region raises the argument error for \<^verbatim>\<open>nodeRegion\<close>, whatever the
  credentials and the environment are; only when both are falsy does the constructor
  delegate to the directory lookup on that network, whose error it raises; and when both
  are truthy there is no lookup: the given coordinates go to credential resolution. When
  \<^verbatim>\<open>Network.from\<close> throws, that error is raised and nothing else happens.
\<close>

theorem constructor_checks_node_coordinates:
  fixes nodeId nodeRegion billingToken :: jsstring
    and network :: "Networkish option" and credentials :: "Credentials option"
  shows
   "(\<forall>e. Network_from P (case network of None \<Rightarrow> OfName ''mainnet'' | Some n \<Rightarrow> n) = Inl e \<longrightarrow>
       AwsProvider_constructor P nodeId nodeRegion billingToken network credentials = Inl e)
  \<and> (\<forall>net. Network_from P (case network of None \<Rightarrow> OfName ''mainnet'' | Some n \<Rightarrow> n) = Inr net \<longrightarrow>
       (\<not> truthy nodeId \<and> truthy nodeRegion \<longrightarrow>
          AwsProvider_constructor P nodeId nodeRegion billingToken network credentials
            = Inl (INVALID_ARGUMENT ''nodeId required with nodeRegion'' ''nodeId''
                (jsvalue_of nodeId)))
     \<and> (truthy nodeId \<and> \<not> truthy nodeRegion \<longrightarrow>
          AwsProvider_constructor P nodeId nodeRegion billingToken network credentials
            = Inl (INVALID_ARGUMENT ''nodeRegion required with nodeId'' ''nodeRegion''
                (jsvalue_of nodeRegion)))
     \<and> (\<not> truthy nodeId \<and> \<not> truthy nodeRegion \<longrightarrow>
          (\<exists>e. getCommunityAmbNodeProps net = Inl e
             \<and> AwsProvider_constructor P nodeId nodeRegion billingToken network credentials
                = Inl e))
     \<and> (truthy nodeId \<and> truthy nodeRegion \<longrightarrow>
          AwsProvider_constructor P nodeId nodeRegion billingToken network credentials
            = then_do (case credentials of None \<Rightarrow> getDefaultAwsCredentials P
                       | Some given \<Rightarrow> Inr given)
                (\<lambda>c. Inr \<lparr>request = getFetchRequest c nodeId nodeRegion billingToken,
                          network = net, staticNetwork = net,
                          aws = \<lparr>nodeRegion = nodeRegion, nodeId = nodeId,
                                  nodeHttpEndpoint = getAmbNodeUrl nodeId nodeRegion billingToken,
                                  credentials = c\<rparr>\<rparr>)))"
proof -
  let ?requested = "case network of None \<Rightarrow> OfName ''mainnet'' | Some n \<Rightarrow> n"
  let ?result = "AwsProvider_constructor P nodeId nodeRegion billingToken network credentials"
  have url: "url (getFetchRequest c nodeId nodeRegion billingToken)
      = getAmbNodeUrl nodeId nodeRegion billingToken" for c
    by (simp add: getFetchRequest_def new_FetchRequest_def)
  have failed: "?result = Inl e" if "Network_from P ?requested = Inl e" for e
    using that by (simp add: AwsProvider_constructor_def Let_def)
  have no_id: "?result = Inl (INVALID_ARGUMENT ''nodeId required with nodeRegion'' ''nodeId''
      (jsvalue_of nodeId))"
    if "Network_from P ?requested = Inr net" "\<not> truthy nodeId \<and> truthy nodeRegion" for net
    using that by (simp add: AwsProvider_constructor_def Let_def assertArgument_def)
  have no_region: "?result = Inl (INVALID_ARGUMENT ''nodeRegion required with nodeId''
      ''nodeRegion'' (jsvalue_of nodeRegion))"
    if "Network_from P ?requested = Inr net" "truthy nodeId \<and> \<not> truthy nodeRegion" for net
    using that by (simp add: AwsProvider_constructor_def Let_def assertArgument_def)
  have neither: "\<exists>e. getCommunityAmbNodeProps net = Inl e \<and> ?result = Inl e"
    if "Network_from P ?requested = Inr net" "\<not> truthy nodeId \<and> \<not> truthy nodeRegion" for net
  proof -
    obtain e where "getCommunityAmbNodeProps net = Inl e"
      using getCommunityAmbNodeProps_Inl [of net] by blast
    then show ?thesis
      using that by (simp add: AwsProvider_constructor_def Let_def)
  qed
  have both: "?result
      = then_do (case credentials of None \<Rightarrow> getDefaultAwsCredentials P | Some given \<Rightarrow> Inr given)
          (\<lambda>c. Inr \<lparr>request = getFetchRequest c nodeId nodeRegion billingToken,
                    network = net, staticNetwork = net,
                    aws = \<lparr>nodeRegion = nodeRegion, nodeId = nodeId,
                            nodeHttpEndpoint = getAmbNodeUrl nodeId nodeRegion billingToken,
                            credentials = c\<rparr>\<rparr>)"
    if "Network_from P ?requested = Inr net" "truthy nodeId \<and> truthy nodeRegion" for net
    using that by (simp add: AwsProvider_constructor_def Let_def url)
  show ?thesis
    using failed no_id no_region neither both by (intro conjI allI impI)
qed


theorem constructor_checks_node_coordinates_witness:
  "AwsProvider_constructor sample_platform None (Some ''us-east-1'') None None None
     = Inl (INVALID_ARGUMENT ''nodeId required with nodeRegion'' ''nodeId'' Undefined)
   \<and> AwsProvider_constructor sample_platform (Some ''n1'') (Some '''') None None None
     = Inl (INVALID_ARGUMENT ''nodeRegion required with nodeId'' ''nodeRegion'' (Str ''''))
   \<and> AwsProvider_constructor sample_platform None None None (Some (OfChainId 137)) None
     = Inl (INVALID_ARGUMENT
         ''No Amazon Managed Blockchain community node found for network''
         ''network.name'' (Str ''matic''))
   \<and> AwsProvider_constructor sample_platform None (Some ''us-east-1'') None
       (Some (OfName ''bogus'')) None
     = Inl (INVALID_ARGUMENT ''unknown network'' ''network'' (Str ''bogus''))"
  using
    constructor_checks_node_coordinates
      [of sample_platform None None "Some ''us-east-1''" None None]
    constructor_checks_node_coordinates
      [of sample_platform None "Some ''n1''" "Some ''''" None None]
    constructor_checks_node_coordinates
      [of sample_platform "Some (OfChainId 137)" None None None None]
    constructor_checks_node_coordinates
      [of sample_platform "Some (OfName ''bogus'')" None "Some ''us-east-1''" None None]
  by (simp add: sample_defs getCommunityAmbNodeProps_def assertArgument_def Let_def)

text \<open>
  C3. Credential resolution, for a construction that reaches it (the network normalises
  and both node coordinates are present). Explicit credentials are used as they are,
  whatever they contain, and the environment is not consulted: the result is the same for
  every environment. Without explicit credentials, the credentials that the AWS SDK finds
  in the environment are used. When it finds none, construction fails with the error "AWS
  Credentials not found by the AWS SDK", whose message ends with the address of the
  documentation on setting credentials.
\<close>

theorem constructor_resolves_credentials:
  fixes nodeId nodeRegion billingToken :: jsstring
    and network :: "Networkish option" and credentials :: "Credentials option"
  assumes "Network_from P (case network of None \<Rightarrow> OfName ''mainnet'' | Some n \<Rightarrow> n) = Inr net"
    and "truthy nodeId" and "truthy nodeRegion"
  shows
   "(\<forall>given. credentials = Some given \<longrightarrow>
       (\<exists>provider.
          AwsProvider_constructor P nodeId nodeRegion billingToken network credentials
            = Inr provider
        \<and> AwsMeta.credentials (aws provider) = given
        \<and> preflightFunc (request provider) = Some (AwsSigV4 given nodeRegion))
     \<and> (\<forall>ambient.
          AwsProvider_constructor (P\<lparr>Config_credentials := ambient\<rparr>) nodeId nodeRegion
            billingToken network credentials
          = AwsProvider_constructor P nodeId nodeRegion billingToken network credentials))
  \<and> (\<forall>found. credentials = None \<and> Config_credentials P = Some found \<longrightarrow>
       (\<exists>provider.
          AwsProvider_constructor P nodeId nodeRegion billingToken network credentials
            = Inr provider
        \<and> AwsMeta.credentials (aws provider) = found
        \<and> preflightFunc (request provider) = Some (AwsSigV4 found nodeRegion)))
  \<and> (credentials = None \<and> Config_credentials P = None \<longrightarrow>
       AwsProvider_constructor P nodeId nodeRegion billingToken network credentials
         = Inl (Error (''AWS Credentials not found by the AWS SDK. To learn how to set AWS ''
             @ ''credentials for your environment, please visit ''
             @ ''https://docs.aws.amazon.com/sdk-for-javascript/v2/developer-guide/''
             @ ''setting-credentials-node.html'')))"
  using assms
  by (simp add: AwsProvider_constructor_def Let_def getDefaultAwsCredentials_def
      getFetchRequest_def)

theorem constructor_resolves_credentials_witness:
  "(\<exists>provider.
      AwsProvider_constructor sample_platform (Some ''n1'') (Some ''r1'') None None
        (Some sample_credentials) = Inr provider
    \<and> AwsMeta.credentials (aws provider) = sample_credentials)
   \<and> (\<exists>provider.
      AwsProvider_constructor (sample_platform\<lparr>Config_credentials := Some sample_credentials\<rparr>)
        (Some ''n1'') (Some ''r1'') None None None = Inr provider
    \<and> AwsMeta.credentials (aws provider) = sample_credentials)
   \<and> AwsProvider_constructor sample_platform (Some ''n1'') (Some ''r1'') None None None
       = Inl (Error (''AWS Credentials not found by the AWS SDK. To learn how to set AWS ''
             @ ''credentials for your environment, please visit ''
             @ ''https://docs.aws.amazon.com/sdk-for-javascript/v2/developer-guide/''
             @ ''setting-credentials-node.html''))"
proof -
  have net: "Network_from sample_platform (case None of None \<Rightarrow> OfName ''mainnet'' | Some n \<Rightarrow> n)
      = Inr mainnet"
    by (simp add: sample_platform_def sample_Network_from_def)
  have ambient: "Config_credentials sample_platform = None"
    by (simp add: sample_platform_def)
  have net': "Network_from (sample_platform\<lparr>Config_credentials := Some sample_credentials\<rparr>)
      (case None of None \<Rightarrow> OfName ''mainnet'' | Some n \<Rightarrow> n) = Inr mainnet"
    by (simp add: sample_platform_def sample_Network_from_def)
  have ids: "truthy (Some ''n1'')" "truthy (Some ''r1'')"
    by simp_all
  show ?thesis
    using
      constructor_resolves_credentials
        [OF net ids, where billingToken = None and credentials = "Some sample_credentials"]
      constructor_resolves_credentials
        [OF net' ids, where billingToken = None and credentials = None]
      constructor_resolves_credentials
        [OF net ids, where billingToken = None and credentials = None]
    by (auto simp add: ambient)
qed

text \<open>
  C8, as stated, fails for a node id that is explicit and empty: the constructor raises
  the argument error "nodeId required with nodeRegion".
\<close>

theorem constructor_explicit_empty_nodeId_counterexample:
  "AwsProvider_constructor sample_platform (Some '''') (Some ''r1'') None None
     (Some sample_credentials)
     = Inl (INVALID_ARGUMENT ''nodeId required with nodeRegion'' ''nodeId'' (Str ''''))"
  by (simp add: AwsProvider_constructor_def assertArgument_def Let_def sample_platform_def
      sample_Network_from_def)

text \<open>
  C8, amended. Constructing a provider with an explicit non-empty node id, an explicit
  non-empty region, explicit credentials and no network succeeds, given that
  \<^verbatim>\<open>Network.from("mainnet")\<close> does. The network, also pinned as the static network,
  is what that call yields; the \<^verbatim>\<open>aws\<close> attribute holds the node id, the region and
  the credentials given and, as \<^verbatim>\<open>nodeHttpEndpoint\<close>, the URL that the endpoint
  builder returns for the node id, the region and the billing token; the request is the
  one \<^verbatim>\<open>getFetchRequest\<close> builds, with that URL and the signing hook.
\<close>

theorem constructor_with_explicit_node:
  fixes nodeId nodeRegion billingToken :: jsstring and credentials :: Credentials
  assumes "Network_from P (OfName ''mainnet'') = Inr net"
    and "truthy nodeId" and "truthy nodeRegion"
  shows "AwsProvider_constructor P nodeId nodeRegion billingToken None (Some credentials)
      = Inr \<lparr>request = getFetchRequest credentials nodeId nodeRegion billingToken,
             network = net, staticNetwork = net,
             aws = \<lparr>nodeRegion = nodeRegion, nodeId = nodeId,
                     nodeHttpEndpoint = getAmbNodeUrl nodeId nodeRegion billingToken,
                     credentials = credentials\<rparr>\<rparr>
    \<and> url (getFetchRequest credentials nodeId nodeRegion billingToken)
        = getAmbNodeUrl nodeId nodeRegion billingToken
    \<and> preflightFunc (getFetchRequest credentials nodeId nodeRegion billingToken)
        = Some (AwsSigV4 credentials nodeRegion)"
  using assms
  by (simp add: AwsProvider_constructor_def Let_def getFetchRequest_def new_FetchRequest_def)

theorem constructor_with_explicit_node_witness:
  "AwsProvider_constructor sample_platform (Some ''n1'') (Some ''r1'') None None
        (Some sample_credentials)
     = Inr \<lparr>request = getFetchRequest sample_credentials (Some ''n1'') (Some ''r1'') None,
            network = mainnet, staticNetwork = mainnet,
            aws = \<lparr>nodeRegion = Some ''r1'', nodeId = Some ''n1'',
                    nodeHttpEndpoint = ''https://n1.ethereum.managedblockchain.r1.amazonaws.com'',
                    credentials = sample_credentials\<rparr>\<rparr>
   \<and> name mainnet = ''mainnet''"
proof -
  have net: "Network_from sample_platform (OfName ''mainnet'') = Inr mainnet"
    by (simp add: sample_platform_def sample_Network_from_def)
  have ids: "truthy (Some ''n1'')" "truthy (Some ''r1'')"
    by simp_all
  have endpoint: "getAmbNodeUrl (Some ''n1'') (Some ''r1'') None
      = ''https://n1.ethereum.managedblockchain.r1.amazonaws.com''"
    by (simp add: getAmbNodeUrl_def)
  show ?thesis
    using constructor_with_explicit_node
        [OF net ids, where billingToken = None and credentials = sample_credentials]
    by (simp add: endpoint mainnet_def)
qed

section \<open>Deriving a provider for another chain\<close>

text \<open>
  C7. On a provider that the constructor has built, \<^verbatim>\<open>_getProvider(chainId)\<close>
  constructs a new \<^verbatim>\<open>AwsProvider\<close> from the original's \<^verbatim>\<open>aws.nodeId\<close>,
  \<^verbatim>\<open>aws.nodeRegion\<close> and \<^verbatim>\<open>aws.credentials\<close> and the requested chain id, and
  returns it, printing nothing. The derived provider is exactly what the constructor
  builds from these: its \<^verbatim>\<open>aws.nodeId\<close>, \<^verbatim>\<open>aws.nodeRegion\<close> and
  \<^verbatim>\<open>aws.credentials\<close> are the original's, its network and static network are what
  \<^verbatim>\<open>Network.from\<close> yields for the requested chain id, its endpoint is the URL of that
  node without a billing token, and its request has that URL and the hook that signs with
  the original's credentials and region. When constructing the derived provider throws,
  which only \<^verbatim>\<open>Network.from(chainId)\<close> can cause, the error is printed on the console
  and the method returns what \<^verbatim>\<open>_getProvider(chainId)\<close> of the base class returns.
\<close>

theorem getProvider_derives_or_falls_back:
  fixes nodeId nodeRegion billingToken :: jsstring
    and network :: "Networkish option" and credentials :: "Credentials option"
    and chainId :: int
  assumes "AwsProvider_constructor P nodeId nodeRegion billingToken network credentials
      = Inr this"
  shows
   "(\<forall>net. Network_from P (OfChainId chainId) = Inr net \<longrightarrow>
       AwsProvider_constructor P (AwsMeta.nodeId (aws this)) (AwsMeta.nodeRegion (aws this))
         None (Some (OfChainId chainId)) (Some (AwsMeta.credentials (aws this)))
         = Inr \<lparr>request = getFetchRequest (AwsMeta.credentials (aws this))
                   (AwsMeta.nodeId (aws this)) (AwsMeta.nodeRegion (aws this)) None,
                network = net, staticNetwork = net,
                aws = \<lparr>nodeRegion = AwsMeta.nodeRegion (aws this),
                        nodeId = AwsMeta.nodeId (aws this),
                        nodeHttpEndpoint = getAmbNodeUrl (AwsMeta.nodeId (aws this))
                          (AwsMeta.nodeRegion (aws this)) None,
                        credentials = AwsMeta.credentials (aws this)\<rparr>\<rparr>
     \<and> AwsProvider_getProvider P this chainId console
         = (Inr (Aws \<lparr>request = getFetchRequest (AwsMeta.credentials (aws this))
                        (AwsMeta.nodeId (aws this)) (AwsMeta.nodeRegion (aws this)) None,
                      network = net, staticNetwork = net,
                      aws = \<lparr>nodeRegion = AwsMeta.nodeRegion (aws this),
                              nodeId = AwsMeta.nodeId (aws this),
                              nodeHttpEndpoint = getAmbNodeUrl (AwsMeta.nodeId (aws this))
                                (AwsMeta.nodeRegion (aws this)) None,
                              credentials = AwsMeta.credentials (aws this)\<rparr>\<rparr>),
            console))
  \<and> url (getFetchRequest (AwsMeta.credentials (aws this)) (AwsMeta.nodeId (aws this))
            (AwsMeta.nodeRegion (aws this)) None)
      = getAmbNodeUrl (AwsMeta.nodeId (aws this)) (AwsMeta.nodeRegion (aws this)) None
  \<and> preflightFunc (getFetchRequest (AwsMeta.credentials (aws this))
        (AwsMeta.nodeId (aws this)) (AwsMeta.nodeRegion (aws this)) None)
      = Some (AwsSigV4 (AwsMeta.credentials (aws this)) (AwsMeta.nodeRegion (aws this)))
  \<and> (\<forall>error.
       AwsProvider_constructor P (AwsMeta.nodeId (aws this)) (AwsMeta.nodeRegion (aws this))
         None (Some (OfChainId chainId)) (Some (AwsMeta.credentials (aws this))) = Inl error \<longrightarrow>
       Network_from P (OfChainId chainId) = Inl error
     \<and> AwsProvider_getProvider P this chainId console
         = (then_do (super_getProvider P this chainId) (\<lambda>provider. Inr (Base provider)),
            console @ [error]))"
proof -
  have ids: "truthy (AwsMeta.nodeId (aws this))" "truthy (AwsMeta.nodeRegion (aws this))"
    using constructor_Inr_coordinates [OF assms] by simp_all
  let ?derive = "AwsProvider_constructor P (AwsMeta.nodeId (aws this))
    (AwsMeta.nodeRegion (aws this)) None (Some (OfChainId chainId))
    (Some (AwsMeta.credentials (aws this)))"
  let ?derived = "\<lambda>net. \<lparr>request = getFetchRequest (AwsMeta.credentials (aws this))
                   (AwsMeta.nodeId (aws this)) (AwsMeta.nodeRegion (aws this)) None,
                network = net, staticNetwork = net,
                aws = \<lparr>nodeRegion = AwsMeta.nodeRegion (aws this),
                        nodeId = AwsMeta.nodeId (aws this),
                        nodeHttpEndpoint = getAmbNodeUrl (AwsMeta.nodeId (aws this))
                          (AwsMeta.nodeRegion (aws this)) None,
                        credentials = AwsMeta.credentials (aws this)\<rparr>\<rparr>"
  have request: "url (getFetchRequest (AwsMeta.credentials (aws this))
        (AwsMeta.nodeId (aws this)) (AwsMeta.nodeRegion (aws this)) None)
      = getAmbNodeUrl (AwsMeta.nodeId (aws this)) (AwsMeta.nodeRegion (aws this)) None"
    "preflightFunc (getFetchRequest (AwsMeta.credentials (aws this))
        (AwsMeta.nodeId (aws this)) (AwsMeta.nodeRegion (aws this)) None)
      = Some (AwsSigV4 (AwsMeta.credentials (aws this)) (AwsMeta.nodeRegion (aws this)))"
    by (simp_all add: getFetchRequest_def new_FetchRequest_def)
  have ok: "?derive = Inr (?derived net)"
    if "Network_from P (OfChainId chainId) = Inr net" for net
    using that ids by (simp add: AwsProvider_constructor_def Let_def request)
  have derived: "AwsProvider_getProvider P this chainId console
      = (Inr (Aws (?derived net)), console)"
    if "Network_from P (OfChainId chainId) = Inr net" for net
    using ok [OF that] by (simp add: AwsProvider_getProvider_def)
  have fallback: "Network_from P (OfChainId chainId) = Inl error
     \<and> AwsProvider_getProvider P this chainId console
         = (then_do (super_getProvider P this chainId) (\<lambda>provider. Inr (Base provider)),
            console @ [error])"
    if "?derive = Inl error" for error
  proof -
    have "Network_from P (OfChainId chainId) = Inl error"
      using that ok by (cases "Network_from P (OfChainId chainId)")
        (auto simp add: AwsProvider_constructor_def Let_def)
    then show ?thesis
      using that by (simp add: AwsProvider_getProvider_def)
  qed
  show ?thesis
    using ok derived fallback request by (intro conjI allI impI) simp_all
qed


theorem getProvider_derives_or_falls_back_witness:
  "\<exists>original.
      AwsProvider_constructor sample_platform (Some ''n1'') (Some ''r1'') (Some ''tok'') None
        (Some sample_credentials) = Inr original
    \<and> nodeHttpEndpoint (aws original)
        = ''https://n1.ethereum.managedblockchain.r1.amazonaws.com?billingToken=tok''
    \<and> AwsProvider_getProvider sample_platform original 137 []
        = (Inr (Aws \<lparr>request = getFetchRequest sample_credentials (Some ''n1'') (Some ''r1'') None,
                     network = matic, staticNetwork = matic,
                     aws = \<lparr>nodeRegion = Some ''r1'', nodeId = Some ''n1'',
                             nodeHttpEndpoint
                               = ''https://n1.ethereum.managedblockchain.r1.amazonaws.com'',
                             credentials = sample_credentials\<rparr>\<rparr>), [])
    \<and> preflightFunc (getFetchRequest sample_credentials (Some ''n1'') (Some ''r1'') None)
        = Some (AwsSigV4 sample_credentials (Some ''r1''))
    \<and> AwsProvider_getProvider sample_platform original 424242 []
        = (Inr (Base ()), [INVALID_ARGUMENT ''unknown network'' ''network'' (Num 424242)])"
proof -
  obtain original where constructed:
      "AwsProvider_constructor sample_platform (Some ''n1'') (Some ''r1'')
        (Some ''tok'') None (Some sample_credentials) = Inr original"
    and aws: "AwsMeta.nodeId (aws original) = Some ''n1''"
      "AwsMeta.nodeRegion (aws original) = Some ''r1''"
      "AwsMeta.credentials (aws original) = sample_credentials"
    and endpoint: "nodeHttpEndpoint (aws original)
        = ''https://n1.ethereum.managedblockchain.r1.amazonaws.com?billingToken=tok''"
    by (simp add: AwsProvider_constructor_def Let_def sample_platform_def
        sample_Network_from_def getFetchRequest_def new_FetchRequest_def getAmbNodeUrl_def)
  have known: "Network_from sample_platform (OfChainId 137) = Inr matic"
    by (simp add: sample_platform_def sample_Network_from_def)
  have unknown: "AwsProvider_constructor sample_platform (AwsMeta.nodeId (aws original))
      (AwsMeta.nodeRegion (aws original)) None (Some (OfChainId 424242))
      (Some (AwsMeta.credentials (aws original)))
      = Inl (INVALID_ARGUMENT ''unknown network'' ''network'' (Num 424242))"
    by (simp add: AwsProvider_constructor_def Let_def sample_platform_def
        sample_Network_from_def)
  have super: "super_getProvider sample_platform original 424242 = Inr ()"
    by (simp add: sample_platform_def)
  have bare: "getAmbNodeUrl (Some ''n1'') (Some ''r1'') None
      = ''https://n1.ethereum.managedblockchain.r1.amazonaws.com''"
    by (simp add: getAmbNodeUrl_def)
  from getProvider_derives_or_falls_back [OF constructed, of 137 "[]"] known
  have derived: "AwsProvider_getProvider sample_platform original 137 []
        = (Inr (Aws \<lparr>request = getFetchRequest sample_credentials (Some ''n1'') (Some ''r1'') None,
                     network = matic, staticNetwork = matic,
                     aws = \<lparr>nodeRegion = Some ''r1'', nodeId = Some ''n1'',
                             nodeHttpEndpoint
                               = ''https://n1.ethereum.managedblockchain.r1.amazonaws.com'',
                             credentials = sample_credentials\<rparr>\<rparr>), [])"
    and hook: "preflightFunc (getFetchRequest sample_credentials (Some ''n1'') (Some ''r1'') None)
        = Some (AwsSigV4 sample_credentials (Some ''r1''))"
    by (simp_all add: aws bare)
  from getProvider_derives_or_falls_back [OF constructed, of 424242 "[]"] unknown
  have fallen: "AwsProvider_getProvider sample_platform original 424242 []
      = (Inr (Base ()), [INVALID_ARGUMENT ''unknown network'' ''network'' (Num 424242)])"
    by (simp add: super)
  show ?thesis
    using constructed endpoint derived hook fallen by (intro exI [of _ original]) simp
qed

section \<open>The signature does not depend on the headers of the request\<close>

text \<open>
  C10. The request handed to the signer is built from the URL of the outbound request (its
  protocol, host name and path, and a \<^verbatim>\<open>host\<close> header), its method and its body, and
  from nothing else. So two outbound requests with the same URL, method and body, whatever
  headers are set on them, get the same signed headers when they are signed with the same
  credentials and region at the same time.
\<close>

theorem signature_ignores_request_headers:
  fixes credentials :: Credentials and nodeRegion :: jsstring
  assumes "url other = url ethersRequest"
    and "FetchRequest.method other = FetchRequest.method ethersRequest"
    and "FetchRequest.body other = FetchRequest.body ethersRequest"
  shows "awsRequest P other = awsRequest P ethersRequest
    \<and> (\<forall>parsed. URL_new P (url ethersRequest) = Inr parsed \<longrightarrow>
          awsRequest P ethersRequest
            = Inr \<lparr>HttpRequest.protocol = URL.protocol parsed,
                   HttpRequest.hostname = URL.hostname parsed,
                   HttpRequest.method = FetchRequest.method ethersRequest,
                   HttpRequest.headers = [(''host'', host parsed)],
                   path = pathname parsed,
                   HttpRequest.body =
                     map_option (TextDecoder_decode P) (FetchRequest.body ethersRequest)\<rparr>)
    \<and> signedAwsHeaders P credentials nodeRegion now other
        = signedAwsHeaders P credentials nodeRegion now ethersRequest"
proof -
  have "awsRequest P other = awsRequest P ethersRequest"
    using assms by (rule awsRequest_cong)
  moreover have "signedAwsHeaders P credentials nodeRegion now other
      = signedAwsHeaders P credentials nodeRegion now ethersRequest"
    using assms by (rule signedAwsHeaders_cong)
  moreover have "awsRequest P ethersRequest
      = Inr \<lparr>HttpRequest.protocol = URL.protocol parsed,
             HttpRequest.hostname = URL.hostname parsed,
             HttpRequest.method = FetchRequest.method ethersRequest,
             HttpRequest.headers = [(''host'', host parsed)],
             path = pathname parsed,
             HttpRequest.body =
               map_option (TextDecoder_decode P) (FetchRequest.body ethersRequest)\<rparr>"
    if "URL_new P (url ethersRequest) = Inr parsed" for parsed
    using that by (simp add: awsRequest_def split: option.splits)
  ultimately show ?thesis
    by simp
qed

theorem signature_ignores_request_headers_witness:
  "signedAwsHeaders sample_platform sample_credentials (Some ''r1'') 1000
     ((new_FetchRequest ''https://n1.example.com'')
        \<lparr>FetchRequest.headers := [''authorization'' \<mapsto> ''Basic old'']\<rparr>)
   = signedAwsHeaders sample_platform sample_credentials (Some ''r1'') 1000
       (new_FetchRequest ''https://n1.example.com'')
   \<and> signedAwsHeaders sample_platform sample_credentials (Some ''r1'') 1000
       (new_FetchRequest ''https://n1.example.com'')
     = Inr [(''host'', ''n1.example.com''), (''X-Amz-Date'', ''|''),
            (''Authorization'', ''AKID/r1/managedblockchain/n1.example.com/|'')]"
proof -
  let ?req = "new_FetchRequest ''https://n1.example.com''"
  let ?other = "?req\<lparr>FetchRequest.headers := [''authorization'' \<mapsto> ''Basic old'']\<rparr>"
  have same: "url ?other = url ?req" "FetchRequest.method ?other = FetchRequest.method ?req"
    "FetchRequest.body ?other = FetchRequest.body ?req"
    by simp_all
  have parsed: "URL_new sample_platform (url ?req)
      = Inr \<lparr>URL.protocol = ''https:'', URL.hostname = ''n1.example.com'',
             host = ''n1.example.com'', pathname = ''/''\<rparr>"
    by (simp add: sample_platform_def sample_URL_new_def new_FetchRequest_def Let_def)
  have sign: "SignatureV4_sign sample_platform sample_credentials (Some ''r1'')
      ''managedblockchain''
      \<lparr>HttpRequest.protocol = ''https:'', HttpRequest.hostname = ''n1.example.com'',
       HttpRequest.method = ''GET'', HttpRequest.headers = [(''host'', ''n1.example.com'')],
       path = ''/'', HttpRequest.body = None\<rparr> 1000
      = Inr \<lparr>HttpRequest.protocol = ''https:'', HttpRequest.hostname = ''n1.example.com'',
       HttpRequest.method = ''GET'',
       HttpRequest.headers = [(''host'', ''n1.example.com''), (''X-Amz-Date'', ''|''),
            (''Authorization'', ''AKID/r1/managedblockchain/n1.example.com/|'')],
       path = ''/'', HttpRequest.body = None\<rparr>"
    by (simp add: sample_platform_def sample_sign_def sample_credentials_def Let_def)
  have fresh: "FetchRequest.method ?req = ''GET''" "FetchRequest.body ?req = None"
    by (simp_all add: new_FetchRequest_def)
  from signature_ignores_request_headers
    [OF same, of sample_platform sample_credentials "Some ''r1''" 1000]
  have "awsRequest sample_platform ?req
      = Inr \<lparr>HttpRequest.protocol = ''https:'', HttpRequest.hostname = ''n1.example.com'',
           HttpRequest.method = ''GET'', HttpRequest.headers = [(''host'', ''n1.example.com'')],
           path = ''/'', HttpRequest.body = None\<rparr>"
    and eq: "signedAwsHeaders sample_platform sample_credentials (Some ''r1'') 1000 ?other
      = signedAwsHeaders sample_platform sample_credentials (Some ''r1'') 1000 ?req"
    by (simp_all add: parsed fresh)
  then show ?thesis
    by (simp add: signedAwsHeaders_def sign)
qed

end
